theory Spec2Isabelle
  imports Main "HOL-Library.AList" "HOL-Library.Word"
begin

section \<open>The header \<open>secrets.template.h\<close> and the preprocessor that reads it\<close>

text \<open>
  The repository fragment is one C preprocessor header,
  \<^verbatim>\<open>src/arduino/codecell-raw-imu/secrets.template.h\<close>:
  an include guard around four object-like macro definitions. The header is embedded as
  the list of its logical lines after comment removal, and the directives it uses
  (\<^verbatim>\<open>#ifndef\<close>, \<^verbatim>\<open>#define\<close>, \<^verbatim>\<open>#endif\<close>) are
  given their meaning as a step function on an explicit preprocessor state.
\<close>

subsection \<open>Tokens and lines\<close>

text \<open>
  A replacement list is a sequence of preprocessing tokens. The header uses string
  literals and one decimal number; an including file reads a macro by writing its
  identifier.
\<close>

datatype token = Ident string | StrLit string | Number int

text \<open>
  A logical line is one of the three directives of the header, or a line of ordinary
  text (the lines of the sketch that includes the header).
\<close>

datatype line =
    Ifndef string
  | Define string "token list"
  | Endif
  | Text "token list"

subsection \<open>The header, line by line\<close>

text \<open>
  \<^verbatim>\<open>
  #ifndef SECRETS_H
  #define SECRETS_H
  #define SECRET_SSID "your_wifi_network"
  #define SECRET_PASSWORD "your_wifi_password"
  #define SECRET_IP "192.168.1.100"
  #define SECRET_OUTPORT 8000
  #endif
  \<close>
  (the block comment, the line comments and the empty lines are white space to the
  preprocessor).
\<close>

definition secrets_template_h :: "line list" where
  "secrets_template_h =
    [ Ifndef ''SECRETS_H'',
      Define ''SECRETS_H'' [],
      Define ''SECRET_SSID'' [StrLit ''your_wifi_network''],
      Define ''SECRET_PASSWORD'' [StrLit ''your_wifi_password''],
      Define ''SECRET_IP'' [StrLit ''192.168.1.100''],
      Define ''SECRET_OUTPORT'' [Number 8000],
      Endif ]"

text \<open>The four names that carry configuration, in the order of the header.\<close>

definition config_names :: "string list" where
  "config_names = [''SECRET_SSID'', ''SECRET_PASSWORD'', ''SECRET_IP'', ''SECRET_OUTPORT'']"

subsection \<open>Preprocessor state\<close>

text \<open>
  \<^item> \<open>macros\<close>: the macro table, an association list from name to replacement list, in
    order of first definition;
  \<^item> \<open>conds\<close>: the stack of open conditional groups, innermost first; an entry is
    \<open>True\<close> when the group's condition held;
  \<^item> \<open>emitted\<close>: the tokens emitted so far, macros expanded;
  \<^item> \<open>executed\<close>: the names of the \<^verbatim>\<open>#define\<close> directives that were
    executed, oldest first (a trace: the table alone cannot tell one definition from two).
\<close>

record pp_state =
  macros :: "(string \<times> token list) list"
  conds :: "bool list"
  emitted :: "token list"
  executed :: "string list"

definition init_state :: pp_state where
  "init_state = \<lparr> macros = [], conds = [], emitted = [], executed = [] \<rparr>"

text \<open>Lines are processed only when every enclosing conditional group is taken.\<close>

definition active :: "pp_state \<Rightarrow> bool" where
  "active st = list_all (\<lambda>b. b) (conds st)"

text \<open>Reading a macro: its replacement list, or \<open>None\<close> when the name is not defined.\<close>

definition read_macro :: "pp_state \<Rightarrow> string \<Rightarrow> token list option" where
  "read_macro st n = map_of (macros st) n"

definition is_defined :: "pp_state \<Rightarrow> string \<Rightarrow> bool" where
  "is_defined st n = (read_macro st n \<noteq> None)"

text \<open>
  Expansion of one token of text: an identifier that names a macro is replaced by the
  macro's replacement list, any other token stands for itself. The replacement lists of
  the header hold literals only, so the result needs no second scan for macro names.
\<close>

fun expand :: "pp_state \<Rightarrow> token \<Rightarrow> token list" where
  "expand st (Ident n) = (case read_macro st n of Some body \<Rightarrow> body | None \<Rightarrow> [Ident n])"
| "expand st t = [t]"

subsection \<open>Directives\<close>

text \<open>
  \<^item> \<^verbatim>\<open>#ifndef\<close> opens a group, taken when the name is not defined;
  \<^item> \<^verbatim>\<open>#define\<close> binds the name to its replacement list, replacing an earlier
    binding of the same name, and is recorded in the trace;
  \<^item> \<^verbatim>\<open>#endif\<close> closes the innermost group, and is an error when none is open;
  \<^item> a line of text is emitted with its macros expanded.
  \<^verbatim>\<open>#define\<close> and text have no effect inside a group that is skipped.
\<close>

datatype pp_error = Endif_Without_If | Unterminated_Conditional

fun step :: "line \<Rightarrow> pp_state \<Rightarrow> pp_error + pp_state" where
  "step (Ifndef n) st = Inr (st\<lparr>conds := (\<not> is_defined st n) # conds st\<rparr>)"
| "step (Define n body) st =
     Inr (if active st
          then st\<lparr>macros := AList.update n body (macros st), executed := executed st @ [n]\<rparr>
          else st)"
| "step Endif st =
     (case conds st of
        [] \<Rightarrow> Inl Endif_Without_If
      | _ # cs \<Rightarrow> Inr (st\<lparr>conds := cs\<rparr>))"
| "step (Text ts) st =
     Inr (if active st
          then st\<lparr>emitted := emitted st @ concat (map (expand st) ts)\<rparr>
          else st)"

text \<open>A sequence of lines, stopping at the first error.\<close>

fun run :: "line list \<Rightarrow> pp_state \<Rightarrow> pp_error + pp_state" where
  "run [] st = Inr st"
| "run (l # ls) st = (case step l st of Inl e \<Rightarrow> Inl e | Inr st' \<Rightarrow> run ls st')"

text \<open>
  \<^verbatim>\<open>#include\<close> of a file: its lines are processed in the current state, and
  every conditional the file opens must be closed in it.
\<close>

definition include_file :: "line list \<Rightarrow> pp_state \<Rightarrow> pp_error + pp_state" where
  "include_file f st =
     (case run f st of
        Inl e \<Rightarrow> Inl e
      | Inr st' \<Rightarrow> if length (conds st') = length (conds st) then Inr st'
                  else Inl Unterminated_Conditional)"

text \<open>A translation unit: files included one after the other, from the empty state.\<close>

fun include_all :: "line list list \<Rightarrow> pp_state \<Rightarrow> pp_error + pp_state" where
  "include_all [] st = Inr st"
| "include_all (f # fs) st =
     (case include_file f st of Inl e \<Rightarrow> Inl e | Inr st' \<Rightarrow> include_all fs st')"

definition preprocess :: "line list list \<Rightarrow> pp_error + pp_state" where
  "preprocess fs = include_all fs init_state"

subsection \<open>Typed readers\<close>

text \<open>
  The consumer uses three of the names as C strings and one as an integer. A reader
  returns \<open>None\<close> when the name is undefined or its replacement list is not one
  literal of the expected kind.
\<close>

definition read_string :: "pp_state \<Rightarrow> string \<Rightarrow> string option" where
  "read_string st n =
     (case read_macro st n of Some [StrLit s] \<Rightarrow> Some s | _ \<Rightarrow> None)"

definition read_number :: "pp_state \<Rightarrow> string \<Rightarrow> int option" where
  "read_number st n =
     (case read_macro st n of Some [Number k] \<Rightarrow> Some k | _ \<Rightarrow> None)"

text \<open>
  The configuration entries of a state: the macros that carry a value. An include guard
  is defined with an empty replacement list and is not one of them.
\<close>

definition config_entries :: "pp_state \<Rightarrow> (string \<times> token list) list" where
  "config_entries st = filter (\<lambda>(n, body). body \<noteq> []) (macros st)"

section \<open>The state the header defines\<close>

definition template_macros :: "(string \<times> token list) list" where
  "template_macros =
    [ (''SECRETS_H'', []),
      (''SECRET_SSID'', [StrLit ''your_wifi_network'']),
      (''SECRET_PASSWORD'', [StrLit ''your_wifi_password'']),
      (''SECRET_IP'', [StrLit ''192.168.1.100'']),
      (''SECRET_OUTPORT'', [Number 8000]) ]"

definition template_state :: pp_state where
  "template_state =
     \<lparr> macros = template_macros, conds = [], emitted = [],
       executed = ''SECRETS_H'' # config_names \<rparr>"

section \<open>Constraints of the data model\<close>

text \<open>
  The header performs no validation. The predicates below state the constraints that the
  data model places on the four values, so that the values of the header can be checked
  against them: a dotted quad is four decimal components separated by dots, each in the
  range 0 to 255.
\<close>

fun split_on :: "char \<Rightarrow> string \<Rightarrow> string list" where
  "split_on sep [] = [[]]"
| "split_on sep (c # cs) =
     (if c = sep then [] # split_on sep cs
      else (case split_on sep cs of
              [] \<Rightarrow> [[c]]
            | p # ps \<Rightarrow> (c # p) # ps))"

definition digit_val :: "char \<Rightarrow> nat option" where
  "digit_val c =
     (let k = (of_char c :: nat) in if 48 \<le> k \<and> k \<le> 57 then Some (k - 48) else None)"

fun decimal_acc :: "nat \<Rightarrow> string \<Rightarrow> nat option" where
  "decimal_acc acc [] = Some acc"
| "decimal_acc acc (c # cs) =
     (case digit_val c of
        None \<Rightarrow> None
      | Some d \<Rightarrow> decimal_acc (10 * acc + d) cs)"

definition decimal :: "string \<Rightarrow> nat option" where
  "decimal s = (if s = [] then None else decimal_acc 0 s)"

definition octet :: "string \<Rightarrow> nat option" where
  "octet s =
     (case decimal s of
        None \<Rightarrow> None
      | Some k \<Rightarrow> if k \<le> 255 then Some k else None)"

definition parse_dotted_quad :: "string \<Rightarrow> (nat \<times> nat \<times> nat \<times> nat) option" where
  "parse_dotted_quad s =
     (case map octet (split_on CHR ''.'' s) of
        [Some a, Some b, Some c, Some d] \<Rightarrow> Some (a, b, c, d)
      | _ \<Rightarrow> None)"

definition valid_port :: "int \<Rightarrow> bool" where
  "valid_port p = (1 \<le> p \<and> p \<le> 65535)"

text \<open>
  A state holds a valid configuration when its configuration entries are the four names,
  each once, and each value meets its constraint.
\<close>

definition valid_config :: "pp_state \<Rightarrow> bool" where
  "valid_config st =
     (distinct (map fst (config_entries st))
      \<and> set (map fst (config_entries st)) = set config_names
      \<and> (case read_string st ''SECRET_SSID'' of None \<Rightarrow> False | Some s \<Rightarrow> s \<noteq> [])
      \<and> (case read_string st ''SECRET_PASSWORD'' of None \<Rightarrow> False | Some s \<Rightarrow> s \<noteq> [])
      \<and> (case read_string st ''SECRET_IP'' of
            None \<Rightarrow> False
          | Some s \<Rightarrow> parse_dotted_quad s \<noteq> None)
      \<and> (case read_number st ''SECRET_OUTPORT'' of None \<Rightarrow> False | Some p \<Rightarrow> valid_port p))"

section \<open>Copying the template and editing its values\<close>

text \<open>
  The workflow of the header's comment (\<^verbatim>\<open>Copy this file and configure with your network settings\<close>): the copy has the same lines, with the replacement list of a named
  \<^verbatim>\<open>#define\<close> exchanged.
\<close>

fun set_value :: "string \<Rightarrow> token list \<Rightarrow> line \<Rightarrow> line" where
  "set_value n body (Define m old) = (if m = n then Define m body else Define m old)"
| "set_value n body l = l"

definition edited_copy :: "string \<Rightarrow> string \<Rightarrow> string \<Rightarrow> int \<Rightarrow> line list" where
  "edited_copy ssid password ip port =
     map (set_value ''SECRET_OUTPORT'' [Number port])
       (map (set_value ''SECRET_IP'' [StrLit ip])
         (map (set_value ''SECRET_PASSWORD'' [StrLit password])
           (map (set_value ''SECRET_SSID'' [StrLit ssid]) secrets_template_h)))"

text \<open>
  The state after the five \<^verbatim>\<open>#define\<close> lines of a copy have been executed in
  state \<open>st\<close>.
\<close>

definition config_defines :: "string \<Rightarrow> string \<Rightarrow> string \<Rightarrow> int \<Rightarrow> pp_state \<Rightarrow> pp_state" where
  "config_defines ssid password ip port st =
     st\<lparr>macros :=
          AList.update ''SECRET_OUTPORT'' [Number port]
            (AList.update ''SECRET_IP'' [StrLit ip]
              (AList.update ''SECRET_PASSWORD'' [StrLit password]
                (AList.update ''SECRET_SSID'' [StrLit ssid]
                  (AList.update ''SECRETS_H'' [] (macros st))))),
        executed := executed st @ ''SECRETS_H'' # config_names\<rparr>"

section \<open>Properties of the header\<close>

subsection \<open>Running the header\<close>

lemma include_template_init: "include_file secrets_template_h init_state = Inr template_state"
  by (simp add: include_file_def secrets_template_h_def init_state_def
      active_def is_defined_def read_macro_def template_state_def template_macros_def
      config_names_def)

lemma preprocess_template: "preprocess [secrets_template_h] = Inr template_state"
  by (simp add: preprocess_def include_template_init)

lemma template_state_fields:
  "macros template_state = template_macros"
  "conds template_state = []"
  "emitted template_state = []"
  "executed template_state = ''SECRETS_H'' # config_names"
  "active template_state"
  "is_defined template_state ''SECRETS_H''"
  by (simp_all add: template_state_def active_def is_defined_def read_macro_def
      template_macros_def)

lemma template_reads:
  "read_string template_state ''SECRET_SSID'' = Some ''your_wifi_network''"
  "read_string template_state ''SECRET_PASSWORD'' = Some ''your_wifi_password''"
  "read_string template_state ''SECRET_IP'' = Some ''192.168.1.100''"
  "read_number template_state ''SECRET_OUTPORT'' = Some 8000"
  by (simp_all add: read_string_def read_number_def read_macro_def template_state_def
      template_macros_def)

lemma edited_copy_lines:
  "edited_copy ssid password ip port =
    [ Ifndef ''SECRETS_H'',
      Define ''SECRETS_H'' [],
      Define ''SECRET_SSID'' [StrLit ssid],
      Define ''SECRET_PASSWORD'' [StrLit password],
      Define ''SECRET_IP'' [StrLit ip],
      Define ''SECRET_OUTPORT'' [Number port],
      Endif ]"
  by (simp add: edited_copy_def secrets_template_h_def)

lemma template_is_copy:
  "secrets_template_h =
     edited_copy ''your_wifi_network'' ''your_wifi_password'' ''192.168.1.100'' 8000"
  by (simp add: edited_copy_lines) (simp add: secrets_template_h_def)

subsection \<open>Steps in active and in skipped groups\<close>

lemma step_define_active:
  "active st \<Longrightarrow>
   step (Define n body) st =
     Inr (st\<lparr>macros := AList.update n body (macros st), executed := executed st @ [n]\<rparr>)"
  by simp

lemma step_define_skipped: "\<not> active st \<Longrightarrow> step (Define n body) st = Inr st"
  by simp

lemma active_upd:
  "active (st\<lparr>macros := m\<rparr>) = active st"
  "active (st\<lparr>executed := e\<rparr>) = active st"
  "active (st\<lparr>emitted := t\<rparr>) = active st"
  "active (st\<lparr>conds := b # cs\<rparr>) = (b \<and> list_all (\<lambda>b. b) cs)"
  by (simp_all add: active_def)

lemma run_copy_open:
  assumes "active st0" and "\<not> is_defined st0 ''SECRETS_H''"
  shows "run (edited_copy ssid password ip port) st0 =
           Inr (config_defines ssid password ip port st0)"
  using assms
  by (simp add: edited_copy_lines config_names_def config_defines_def active_upd
      active_def[symmetric] step_define_active del: step.simps(2))

lemma run_copy_skipped:
  assumes "\<not> active st0 \<or> is_defined st0 ''SECRETS_H''"
  shows "run (edited_copy ssid password ip port) st0 = Inr st0"
proof -
  let ?st = "st0\<lparr>conds := (\<not> is_defined st0 ''SECRETS_H'') # conds st0\<rparr>"
  have skipped: "\<not> active ?st"
    using assms by (auto simp: active_upd active_def)
  show ?thesis
    by (simp add: edited_copy_lines step_define_skipped[OF skipped] del: step.simps(2))
qed

lemma read_config_defines:
  "read_macro (config_defines ssid password ip port st) ''SECRETS_H'' = Some []"
  "read_macro (config_defines ssid password ip port st) ''SECRET_SSID'' = Some [StrLit ssid]"
  "read_macro (config_defines ssid password ip port st) ''SECRET_PASSWORD'' =
     Some [StrLit password]"
  "read_macro (config_defines ssid password ip port st) ''SECRET_IP'' = Some [StrLit ip]"
  "read_macro (config_defines ssid password ip port st) ''SECRET_OUTPORT'' =
     Some [Number port]"
  by (simp_all add: read_macro_def config_defines_def update_conv')

lemma typed_read_config_defines:
  "read_string (config_defines ssid password ip port st) ''SECRET_SSID'' = Some ssid"
  "read_string (config_defines ssid password ip port st) ''SECRET_PASSWORD'' = Some password"
  "read_string (config_defines ssid password ip port st) ''SECRET_IP'' = Some ip"
  "read_number (config_defines ssid password ip port st) ''SECRET_OUTPORT'' = Some port"
  by (simp_all add: read_string_def read_number_def read_config_defines)

lemma config_defines_fields:
  "conds (config_defines ssid password ip port st) = conds st"
  "emitted (config_defines ssid password ip port st) = emitted st"
  "executed (config_defines ssid password ip port st) =
     executed st @ ''SECRETS_H'' # config_names"
  by (simp_all add: config_defines_def)

lemma include_copy_open:
  assumes "active st0" and "\<not> is_defined st0 ''SECRETS_H''"
  shows "include_file (edited_copy ssid password ip port) st0 =
           Inr (config_defines ssid password ip port st0)"
  by (simp add: include_file_def run_copy_open[OF assms] config_defines_fields)

lemma include_copy_skipped:
  assumes "\<not> active st0 \<or> is_defined st0 ''SECRETS_H''"
  shows "include_file (edited_copy ssid password ip port) st0 = Inr st0"
  by (simp add: include_file_def run_copy_skipped[OF assms])

lemma include_template_open:
  assumes "active st0" and "\<not> is_defined st0 ''SECRETS_H''"
  shows "include_file secrets_template_h st0 =
           Inr (config_defines ''your_wifi_network'' ''your_wifi_password''
                  ''192.168.1.100'' 8000 st0)"
  unfolding template_is_copy using assms by (rule include_copy_open)

lemma include_template_skipped:
  assumes "\<not> active st0 \<or> is_defined st0 ''SECRETS_H''"
  shows "include_file secrets_template_h st0 = Inr st0"
  unfolding template_is_copy using assms by (rule include_copy_skipped)

lemma preprocess_copy:
  "preprocess [edited_copy ssid password ip port] =
     Inr (config_defines ssid password ip port init_state)"
proof -
  have "active init_state" and "\<not> is_defined init_state ''SECRETS_H''"
    by (simp_all add: active_def is_defined_def read_macro_def init_state_def)
  then show ?thesis
    by (simp add: preprocess_def include_copy_open)
qed

lemma macros_of_copy:
  "macros (config_defines ssid password ip port init_state) =
    [ (''SECRETS_H'', []),
      (''SECRET_SSID'', [StrLit ssid]),
      (''SECRET_PASSWORD'', [StrLit password]),
      (''SECRET_IP'', [StrLit ip]),
      (''SECRET_OUTPORT'', [Number port]) ]"
  by (simp add: config_defines_def init_state_def)

subsection \<open>Lines of text\<close>

lemma expand_emitted: "expand (st\<lparr>emitted := ts\<rparr>) t = expand st t"
  by (cases t) (simp_all add: read_macro_def)

lemma run_text_lines:
  "active st \<Longrightarrow>
   run (map Text tss) st =
     Inr (st\<lparr>emitted := emitted st @ concat (map (expand st) (concat tss))\<rparr>)"
proof (induction tss arbitrary: st)
  case Nil
  then show ?case by simp
next
  case (Cons ts tss)
  let ?st = "st\<lparr>emitted := emitted st @ concat (map (expand st) ts)\<rparr>"
  have same: "expand ?st = expand st"
    by (rule ext) (rule expand_emitted)
  have "active ?st"
    using Cons.prems by (simp add: active_upd)
  from Cons.IH[OF this] Cons.prems show ?case
    by (simp add: same)
qed

subsection \<open>The dotted-quad parser\<close>

lemma octet_range: "octet s = Some k \<Longrightarrow> k \<le> 255"
  by (auto simp: octet_def split: option.splits if_splits)

lemma parse_dotted_quad_range:
  assumes "parse_dotted_quad s = Some (a, b, c, d)"
  shows "a \<le> 255 \<and> b \<le> 255 \<and> c \<le> 255 \<and> d \<le> 255"
proof -
  from assms have
    "map octet (split_on CHR ''.'' s) = [Some a, Some b, Some c, Some d]"
    by (auto simp: parse_dotted_quad_def split: list.splits option.splits)
  then obtain w x y z where "octet w = Some a" "octet x = Some b" "octet y = Some c"
    "octet z = Some d"
    by (auto simp: map_eq_Cons_conv)
  then show ?thesis
    by (simp add: octet_range)
qed

section \<open>The claims\<close>

text \<open>
  Claim C1. The template defines exactly four configuration values, each with its
  documented example value: the network name placeholder, the password placeholder, the
  address 192.168.1.100 and the port 8000. The only other macro is the include guard,
  which carries no value.
\<close>

theorem template_defines_exactly_four:
  "\<exists>st. preprocess [secrets_template_h] = Inr st
     \<and> config_entries st =
         [ (''SECRET_SSID'', [StrLit ''your_wifi_network'']),
           (''SECRET_PASSWORD'', [StrLit ''your_wifi_password'']),
           (''SECRET_IP'', [StrLit ''192.168.1.100'']),
           (''SECRET_OUTPORT'', [Number 8000]) ]
     \<and> map fst (config_entries st) = config_names
     \<and> length (config_entries st) = 4
     \<and> macros st = (''SECRETS_H'', []) # config_entries st"
  by (simp add: preprocess_template template_state_def template_macros_def
      config_entries_def config_names_def)

text \<open>
  Claim C2. The value of \<open>SECRET_IP\<close>, the string 192.168.1.100, parses as an IPv4
  dotted quad: splitting at the dots gives four decimal components, and each is in the
  range 0 to 255.
\<close>

theorem secret_ip_is_dotted_quad:
  "\<exists>st a. preprocess [secrets_template_h] = Inr st
     \<and> read_string st ''SECRET_IP'' = Some a
     \<and> a = ''192.168.1.100''
     \<and> split_on CHR ''.'' a = [''192'', ''168'', ''1'', ''100'']
     \<and> map octet (split_on CHR ''.'' a) = [Some 192, Some 168, Some 1, Some 100]
     \<and> parse_dotted_quad a = Some (192, 168, 1, 100)"
  by (simp add: preprocess_template template_reads parse_dotted_quad_def octet_def
      decimal_def digit_val_def)

text \<open>
  Claim C3. The value of \<open>SECRET_OUTPORT\<close> is the integer 8000; it lies in the range 1 to
  65535, so it is a 16-bit unsigned integer (converting it to a 16-bit word loses
  nothing) and it is not zero.
\<close>

theorem secret_outport_in_range:
  "\<exists>st p. preprocess [secrets_template_h] = Inr st
     \<and> read_number st ''SECRET_OUTPORT'' = Some p
     \<and> p = 8000
     \<and> 1 \<le> p \<and> p \<le> 65535
     \<and> valid_port p
     \<and> (word_of_int p :: 16 word) \<noteq> 0
     \<and> uint (word_of_int p :: 16 word) = p"
  by (simp add: preprocess_template template_reads valid_port_def)

text \<open>
  Claim C4. For each of the four configuration names, reading is total: preprocessing
  the header succeeds, the name is defined in the resulting state with a non-empty
  replacement list that one of the typed readers accepts, and a line of text that reads
  the name is processed without error and changes nothing but the emitted tokens, to
  which it appends the value.
\<close>

theorem config_read_total:
  assumes "n \<in> set config_names"
  shows "\<exists>st body st'.
           preprocess [secrets_template_h] = Inr st
         \<and> read_macro st n = Some body
         \<and> body \<noteq> []
         \<and> ((\<exists>s. read_string st n = Some s) \<or> (\<exists>k. read_number st n = Some k))
         \<and> step (Text [Ident n]) st = Inr st'
         \<and> macros st' = macros st
         \<and> conds st' = conds st
         \<and> executed st' = executed st
         \<and> emitted st' = emitted st @ body"
  using assms
  by (auto simp: config_names_def preprocess_template template_state_def
      template_macros_def read_macro_def read_string_def read_number_def active_def)

theorem config_read_total_witness:
  "''SECRET_OUTPORT'' \<in> set config_names
   \<and> (\<exists>st body st'.
           preprocess [secrets_template_h] = Inr st
         \<and> read_macro st ''SECRET_OUTPORT'' = Some body
         \<and> body \<noteq> []
         \<and> ((\<exists>s. read_string st ''SECRET_OUTPORT'' = Some s)
              \<or> (\<exists>k. read_number st ''SECRET_OUTPORT'' = Some k))
         \<and> step (Text [Ident ''SECRET_OUTPORT'']) st = Inr st'
         \<and> macros st' = macros st
         \<and> conds st' = conds st
         \<and> executed st' = executed st
         \<and> emitted st' = emitted st @ body)"
proof -
  have member: "''SECRET_OUTPORT'' \<in> set config_names"
    by (simp add: config_names_def)
  from config_read_total[OF member] member show ?thesis
    by simp
qed

text \<open>
  Claim C5. The four values are fixed when the header is processed and never change
  afterwards. The header executes each \<^verbatim>\<open>#define\<close> once and overwrites nothing;
  whatever lines of text the including sketch holds after the header (every sequence of
  reads), the macro table stays the one the header defined, the four names still yield
  the values they were defined with, and every token of the text was expanded against
  that same table.
\<close>

theorem values_fixed_under_reads:
  "\<exists>st. preprocess [secrets_template_h, map Text tss] = Inr st
     \<and> macros st = template_macros
     \<and> executed st = ''SECRETS_H'' # config_names
     \<and> distinct (executed st)
     \<and> read_string st ''SECRET_SSID'' = Some ''your_wifi_network''
     \<and> read_string st ''SECRET_PASSWORD'' = Some ''your_wifi_password''
     \<and> read_string st ''SECRET_IP'' = Some ''192.168.1.100''
     \<and> read_number st ''SECRET_OUTPORT'' = Some 8000
     \<and> emitted st = concat (map (expand template_state) (concat tss))"
proof -
  let ?st = "template_state\<lparr>emitted := concat (map (expand template_state) (concat tss))\<rparr>"
  have "run (map Text tss) template_state = Inr ?st"
    using run_text_lines[of template_state tss] by (simp add: template_state_fields)
  then have "include_file (map Text tss) template_state = Inr ?st"
    by (simp add: include_file_def)
  then have "preprocess [secrets_template_h, map Text tss] = Inr ?st"
    by (simp add: preprocess_def include_template_init)
  moreover have "macros ?st = template_macros"
    and "executed ?st = ''SECRETS_H'' # config_names"
    by (simp_all add: template_state_fields)
  moreover have "distinct (executed ?st)"
    by (simp add: template_state_fields config_names_def)
  moreover have "read_string ?st ''SECRET_SSID'' = Some ''your_wifi_network''"
    and "read_string ?st ''SECRET_PASSWORD'' = Some ''your_wifi_password''"
    and "read_string ?st ''SECRET_IP'' = Some ''192.168.1.100''"
    and "read_number ?st ''SECRET_OUTPORT'' = Some 8000"
    using template_reads by (simp_all add: read_string_def read_number_def read_macro_def)
  moreover have "emitted ?st = concat (map (expand template_state) (concat tss))"
    by simp
  ultimately show ?thesis
    by blast
qed

text \<open>
  Claim C6. Editing preserves validity. The template itself is a valid configuration.
  When the four values of a copy are replaced by a non-empty network name, a non-empty
  password, a string that parses as a dotted quad and a port between 1 and 65535, the
  copy preprocesses without error, defines the four names with the new values, and is
  again a valid configuration.
\<close>

theorem edited_copy_valid:
  assumes "ssid \<noteq> []" and "password \<noteq> []"
    and "parse_dotted_quad ip \<noteq> None" and "valid_port port"
  shows "(\<exists>st0. preprocess [secrets_template_h] = Inr st0 \<and> valid_config st0)
       \<and> (\<exists>st. preprocess [edited_copy ssid password ip port] = Inr st
             \<and> read_string st ''SECRET_SSID'' = Some ssid
             \<and> read_string st ''SECRET_PASSWORD'' = Some password
             \<and> read_string st ''SECRET_IP'' = Some ip
             \<and> read_number st ''SECRET_OUTPORT'' = Some port
             \<and> valid_config st)"
proof
  have names: "map fst (config_entries template_state) = config_names"
    by (simp add: config_entries_def template_state_def template_macros_def config_names_def)
  have "distinct config_names"
    by (simp add: config_names_def)
  moreover have "parse_dotted_quad ''192.168.1.100'' \<noteq> None"
    by (simp add: parse_dotted_quad_def octet_def decimal_def digit_val_def)
  ultimately have "valid_config template_state"
    by (simp add: valid_config_def names template_reads valid_port_def)
  then show "\<exists>st0. preprocess [secrets_template_h] = Inr st0 \<and> valid_config st0"
    by (simp add: preprocess_template)
next
  let ?st = "config_defines ssid password ip port init_state"
  have names: "map fst (config_entries ?st) = config_names"
    by (simp add: config_entries_def macros_of_copy config_names_def)
  have "distinct config_names"
    by (simp add: config_names_def)
  with assms have "valid_config ?st"
    by (simp add: valid_config_def names typed_read_config_defines)
  then show "\<exists>st. preprocess [edited_copy ssid password ip port] = Inr st
             \<and> read_string st ''SECRET_SSID'' = Some ssid
             \<and> read_string st ''SECRET_PASSWORD'' = Some password
             \<and> read_string st ''SECRET_IP'' = Some ip
             \<and> read_number st ''SECRET_OUTPORT'' = Some port
             \<and> valid_config st"
    by (simp add: preprocess_copy typed_read_config_defines)
qed

theorem edited_copy_valid_witness:
  "''studio_lan'' \<noteq> [] \<and> ''correct horse'' \<noteq> []
   \<and> parse_dotted_quad ''10.0.0.42'' = Some (10, 0, 0, 42)
   \<and> valid_port 9000
   \<and> (\<exists>st. preprocess [edited_copy ''studio_lan'' ''correct horse'' ''10.0.0.42'' 9000] = Inr st
         \<and> read_string st ''SECRET_SSID'' = Some ''studio_lan''
         \<and> read_string st ''SECRET_PASSWORD'' = Some ''correct horse''
         \<and> read_string st ''SECRET_IP'' = Some ''10.0.0.42''
         \<and> read_number st ''SECRET_OUTPORT'' = Some 9000
         \<and> valid_config st)"
proof -
  have ssid: "''studio_lan'' \<noteq> []" and password: "''correct horse'' \<noteq> []"
    by simp_all
  have quad: "parse_dotted_quad ''10.0.0.42'' = Some (10, 0, 0, 42)"
    by (simp add: parse_dotted_quad_def octet_def decimal_def digit_val_def)
  then have ip: "parse_dotted_quad ''10.0.0.42'' \<noteq> None"
    by simp
  have port: "valid_port 9000"
    by (simp add: valid_port_def)
  from edited_copy_valid[OF ssid password ip port] quad port show ?thesis
    by simp
qed

text \<open>
  Claim C7. The network name and the password shipped in the template are non-empty
  strings: the placeholders of 17 and 18 characters.
\<close>

theorem placeholders_nonempty:
  "\<exists>st s p. preprocess [secrets_template_h] = Inr st
     \<and> read_string st ''SECRET_SSID'' = Some s \<and> s \<noteq> [] \<and> length s = 17
     \<and> read_string st ''SECRET_PASSWORD'' = Some p \<and> p \<noteq> [] \<and> length p = 18"
  by (simp add: preprocess_template template_reads)

text \<open>
  Claim C9. Inclusion is idempotent. Including the header twice in one translation unit
  gives the same state as including it once: the same four definitions, and each name
  defined exactly once (the second pass finds \<open>SECRETS_H\<close> defined and skips every
  line). The same holds from every preprocessor state: a second inclusion after a first
  changes nothing.
\<close>

theorem double_include_idempotent:
  "preprocess [secrets_template_h, secrets_template_h] = preprocess [secrets_template_h]
   \<and> (\<exists>st. preprocess [secrets_template_h, secrets_template_h] = Inr st
         \<and> macros st = template_macros
         \<and> map fst (config_entries st) = config_names
         \<and> executed st = ''SECRETS_H'' # config_names
         \<and> map (count_list (executed st)) config_names = [1, 1, 1, 1])
   \<and> (\<forall>st0. \<exists>st. include_file secrets_template_h st0 = Inr st
         \<and> include_file secrets_template_h st = Inr st)"
proof -
  have again: "include_file secrets_template_h template_state = Inr template_state"
    by (simp add: include_template_skipped template_state_fields)
  then have twice: "preprocess [secrets_template_h, secrets_template_h] = Inr template_state"
    by (simp add: preprocess_def include_template_init)
  have counts: "map (count_list (executed template_state)) config_names = [1, 1, 1, 1]"
    by (simp add: template_state_fields config_names_def)
  have names: "map fst (config_entries template_state) = config_names"
    by (simp add: config_entries_def template_state_def template_macros_def config_names_def)
  have everywhere: "\<exists>st. include_file secrets_template_h st0 = Inr st
         \<and> include_file secrets_template_h st = Inr st" for st0
  proof (cases "active st0 \<and> \<not> is_defined st0 ''SECRETS_H''")
    case True
    let ?st = "config_defines ''your_wifi_network'' ''your_wifi_password''
                 ''192.168.1.100'' 8000 st0"
    have first: "include_file secrets_template_h st0 = Inr ?st"
      using True by (simp add: include_template_open)
    have "is_defined ?st ''SECRETS_H''"
      by (simp add: is_defined_def read_config_defines)
    then have "include_file secrets_template_h ?st = Inr ?st"
      by (simp add: include_template_skipped)
    with first show ?thesis
      by simp
  next
    case False
    then have "include_file secrets_template_h st0 = Inr st0"
      by (intro include_template_skipped) blast
    then show ?thesis
      by simp
  qed
  from twice counts names everywhere show ?thesis
    by (simp add: preprocess_template template_state_fields)
qed

text \<open>
  Without the guard the property fails: the five \<^verbatim>\<open>#define\<close> lines alone,
  included twice, execute every definition twice.
\<close>

lemma unguarded_defines_twice:
  "\<exists>st. preprocess [butlast (tl secrets_template_h), butlast (tl secrets_template_h)] = Inr st
     \<and> map (count_list (executed st)) config_names = [2, 2, 2, 2]"
  by (simp add: preprocess_def include_file_def secrets_template_h_def init_state_def
      active_def config_names_def)

text \<open>
  Claim C10. Reading is deterministic and independent of the context. In every
  preprocessor state in which the header takes effect (no enclosing group is skipped and
  the guard is not yet defined), whatever macros, emitted tokens and earlier definitions
  that state holds, the four reads after the header return the header's constants. In a
  copy with other values each name returns its own value and no other: the value read
  for one name does not depend on the values given to the other three.
\<close>

theorem reads_constant_in_every_context:
  assumes "active st0" and "\<not> is_defined st0 ''SECRETS_H''"
  shows "(\<exists>st. include_file secrets_template_h st0 = Inr st
             \<and> read_string st ''SECRET_SSID'' = Some ''your_wifi_network''
             \<and> read_string st ''SECRET_PASSWORD'' = Some ''your_wifi_password''
             \<and> read_string st ''SECRET_IP'' = Some ''192.168.1.100''
             \<and> read_number st ''SECRET_OUTPORT'' = Some 8000)
       \<and> (\<exists>st. include_file (edited_copy ssid password ip port) st0 = Inr st
             \<and> read_string st ''SECRET_SSID'' = Some ssid
             \<and> read_string st ''SECRET_PASSWORD'' = Some password
             \<and> read_string st ''SECRET_IP'' = Some ip
             \<and> read_number st ''SECRET_OUTPORT'' = Some port)"
proof
  show "\<exists>st. include_file secrets_template_h st0 = Inr st
             \<and> read_string st ''SECRET_SSID'' = Some ''your_wifi_network''
             \<and> read_string st ''SECRET_PASSWORD'' = Some ''your_wifi_password''
             \<and> read_string st ''SECRET_IP'' = Some ''192.168.1.100''
             \<and> read_number st ''SECRET_OUTPORT'' = Some 8000"
    by (simp add: include_template_open[OF assms] typed_read_config_defines)
next
  show "\<exists>st. include_file (edited_copy ssid password ip port) st0 = Inr st
             \<and> read_string st ''SECRET_SSID'' = Some ssid
             \<and> read_string st ''SECRET_PASSWORD'' = Some password
             \<and> read_string st ''SECRET_IP'' = Some ip
             \<and> read_number st ''SECRET_OUTPORT'' = Some port"
    by (simp add: include_copy_open[OF assms] typed_read_config_defines)
qed

theorem reads_constant_in_every_context_witness:
  "active \<lparr> macros = [(''SECRET_IP'', [StrLit ''10.0.0.1'']), (''LED_PIN'', [Number 13])],
            conds = [True], emitted = [Ident ''setup''],
            executed = [''SECRET_IP'', ''LED_PIN''] \<rparr>
   \<and> \<not> is_defined
         \<lparr> macros = [(''SECRET_IP'', [StrLit ''10.0.0.1'']), (''LED_PIN'', [Number 13])],
           conds = [True], emitted = [Ident ''setup''],
           executed = [''SECRET_IP'', ''LED_PIN''] \<rparr> ''SECRETS_H''
   \<and> (\<exists>st. include_file secrets_template_h
               \<lparr> macros = [(''SECRET_IP'', [StrLit ''10.0.0.1'']), (''LED_PIN'', [Number 13])],
                 conds = [True], emitted = [Ident ''setup''],
                 executed = [''SECRET_IP'', ''LED_PIN''] \<rparr> = Inr st
         \<and> read_string st ''SECRET_SSID'' = Some ''your_wifi_network''
         \<and> read_string st ''SECRET_PASSWORD'' = Some ''your_wifi_password''
         \<and> read_string st ''SECRET_IP'' = Some ''192.168.1.100''
         \<and> read_number st ''SECRET_OUTPORT'' = Some 8000)"
proof -
  let ?st0 = "\<lparr> macros = [(''SECRET_IP'', [StrLit ''10.0.0.1'']), (''LED_PIN'', [Number 13])],
                conds = [True], emitted = [Ident ''setup''],
                executed = [''SECRET_IP'', ''LED_PIN''] \<rparr>"
  have a: "active ?st0"
    by (simp add: active_def)
  have g: "\<not> is_defined ?st0 ''SECRETS_H''"
    by (simp add: is_defined_def read_macro_def)
  from reads_constant_in_every_context[OF a g, of "''a''" "''b''" "''1.2.3.4''" 1] a g
  show ?thesis
    by simp
qed

end
